theory Spec2Isabelle
  imports Complex_Main
begin

section \<open>Python effects: exceptions and the process state\<close>

text \<open>
  The module is glue over two libraries (torch and skorch).  Every call into them may raise
  and may change state the module cannot see (allocated parameters, the random generator,
  the autograd graph).  A computation is therefore a function from the state it runs in to a
  result, which is either the raised exception (\<open>Inl\<close>) or the returned value (\<open>Inr\<close>),
  and the state it leaves behind.
\<close>

datatype error = IndexError | AttributeError | ValueError | RuntimeError | TypeError

type_synonym ('a, 's) py = "'s \<Rightarrow> (error + 'a) \<times> 's"

definition py_return :: "'a \<Rightarrow> ('a, 's) py" where
  "py_return a s = (Inr a, s)"

definition py_raise :: "error \<Rightarrow> ('a, 's) py" where
  "py_raise e s = (Inl e, s)"

text \<open>Statement sequencing: an exception in the first statement skips the rest.\<close>

definition py_bind :: "('a, 's) py \<Rightarrow> ('a \<Rightarrow> ('b, 's) py) \<Rightarrow> ('b, 's) py" where
  "py_bind m f s = (case m s of (Inl e, s') \<Rightarrow> (Inl e, s') | (Inr a, s') \<Rightarrow> f a s')"

text \<open>
  Indexing a \<open>ModuleList\<close> (or any Python sequence) with an integer: negative indices count
  from the end, and an index outside \<open>-len \<dots> len - 1\<close> raises \<open>IndexError\<close>.
\<close>

definition getitem :: "'a list \<Rightarrow> int \<Rightarrow> ('a, 's) py" where
  "getitem xs i =
     (let n = int (length xs) in
      if i < - n \<or> n \<le> i then py_raise IndexError
      else py_return (xs ! nat (if i < 0 then i + n else i)))"

section \<open>The libraries the module calls\<close>

text \<open>
  The torch calls made by \<open>backprop_nn.py\<close>, as parameters of the model: what they
  return and how they change the library's state \<open>'w\<close> is the library's business.
  \<open>'x\<close> is the type of tensors, \<open>'l\<close> of \<open>nn.Linear\<close> modules, \<open>'d\<close> of
  \<open>nn.Dropout\<close> modules.
\<close>

record ('x, 'l, 'd, 'w) torch =
  nn_Linear :: "int \<Rightarrow> int \<Rightarrow> string \<Rightarrow> ('l, 'w) py"
    \<comment> \<open>\<open>nn.Linear(in_features, out_features, device=device)\<close>\<close>
  nn_Dropout :: "rat \<Rightarrow> ('d, 'w) py"
    \<comment> \<open>\<open>nn.Dropout(p)\<close>\<close>
  cuda_is_available :: "(bool, 'w) py"
    \<comment> \<open>\<open>torch.cuda.is_available()\<close>\<close>
  call_Linear :: "'l \<Rightarrow> 'x \<Rightarrow> ('x, 'w) py"
    \<comment> \<open>calling a linear layer on a tensor\<close>
  call_Dropout :: "'d \<Rightarrow> 'x \<Rightarrow> ('x, 'w) py"
    \<comment> \<open>calling the dropout module on a tensor\<close>
  nn_ReLU :: "'x \<Rightarrow> ('x, 'w) py"
    \<comment> \<open>the callable \<open>nn.ReLU()\<close>\<close>
  nn_Softmax :: "int \<Rightarrow> 'x \<Rightarrow> ('x, 'w) py"
    \<comment> \<open>the callable \<open>nn.Softmax(dim=d)\<close>\<close>

text \<open>
  The skorch calls made by the training step.  \<open>'n\<close> is the type of skorch nets, \<open>'b\<close> of
  batches, \<open>'i\<close> of batch inputs, \<open>'t\<close> of batch targets, \<open>'p\<close> of predictions, \<open>'c\<close> of
  loss values and \<open>'f\<close> of the keyword arguments \<open>fit_params\<close>.  The optimizer's
  \<open>step\<close> and \<open>zero_grad\<close> belong to the same interface; they are listed because the
  training step could call them.
\<close>

record ('n, 'b, 'i, 't, 'p, 'c, 'f, 'w) skorch =
  set_training :: "'n \<Rightarrow> bool \<Rightarrow> (unit, 'w) py"
    \<comment> \<open>\<open>self._set_training(training)\<close>\<close>
  unpack_data :: "'b \<Rightarrow> ('i \<times> 't, 'w) py"
    \<comment> \<open>\<open>unpack_data(batch)\<close>\<close>
  infer :: "'n \<Rightarrow> 'i \<Rightarrow> 'f \<Rightarrow> ('p, 'w) py"
    \<comment> \<open>\<open>self.infer(Xi, **fit_params)\<close>\<close>
  get_loss :: "'n \<Rightarrow> 'p \<Rightarrow> 't \<Rightarrow> 'i \<Rightarrow> bool \<Rightarrow> ('c, 'w) py"
    \<comment> \<open>\<open>self.get_loss(y_pred, y_true, X=X, training=training)\<close>\<close>
  backward :: "'c \<Rightarrow> (unit, 'w) py"
    \<comment> \<open>\<open>loss.backward()\<close>\<close>
  optimizer_step :: "'n \<Rightarrow> (unit, 'w) py"
    \<comment> \<open>\<open>self.optimizer_.step()\<close>\<close>
  zero_grad :: "'n \<Rightarrow> (unit, 'w) py"
    \<comment> \<open>\<open>self.optimizer_.zero_grad()\<close>\<close>

section \<open>The module's data\<close>

text \<open>The attributes \<open>BackpropModule.__init__\<close> stores on the instance.\<close>

record ('x, 'l, 'd, 'w) BackpropModule =
  input_dim :: int
  output_dim :: int
  hidden_units :: int
  hidden_layers :: int
  dropout :: 'd
  activation :: "'x \<Rightarrow> ('x, 'w) py"
  output_activation :: "'x \<Rightarrow> ('x, 'w) py"
  layers :: "'l list"
  device :: string

text \<open>
  What the class attribute \<open>NeuralNet.train_step_single\<close> can be bound to: the function
  skorch ships, or the function defined inside \<open>register_backprop_training_step\<close>.
\<close>

datatype impl = Host_default | Backprop_recipe

text \<open>
  The state of the Python process as far as the module touches it: the attribute dictionary
  of the class \<open>skorch.NeuralNet\<close>, the \<open>BackpropModule\<close> instances alive in the process
  (in order of construction), and the libraries' own state.
\<close>

record ('x, 'l, 'd, 'w) process =
  NeuralNet_attrs :: "string \<rightharpoonup> impl"
  instances :: "('x, 'l, 'd, 'w) BackpropModule list"
  world :: 'w

text \<open>A library call runs in the process and changes only the libraries' state.\<close>

definition in_world :: "('a, 'w) py \<Rightarrow> ('a, ('x, 'l, 'd, 'w) process) py" where
  "in_world m p = (case m (world p) of (r, w') \<Rightarrow> (r, p\<lparr>world := w'\<rparr>))"

section \<open>The training-step override\<close>

text \<open>The dictionary \<open>train_step_single\<close> returns.\<close>

record ('c, 'p) step_result =
  loss :: 'c
  y_pred :: 'p

text \<open>The function defined at lines 94 to 103, with \<open>self\<close> the skorch net.\<close>

definition train_step_single ::
  "('n, 'b, 'i, 't, 'p, 'c, 'f, 'w) skorch \<Rightarrow> 'n \<Rightarrow> 'b \<Rightarrow> 'f \<Rightarrow> (('c, 'p) step_result, 'w) py"
where
  "train_step_single S self batch fit_params =
     py_bind (set_training S self True) (\<lambda>_.
     py_bind (unpack_data S batch) (\<lambda>(Xi, yi).
     py_bind (infer S self Xi fit_params) (\<lambda>y_pred.
     py_bind (get_loss S self y_pred yi Xi True) (\<lambda>loss.
     py_bind (backward S loss) (\<lambda>_.
     py_return \<lparr>loss = loss, y_pred = y_pred\<rparr>)))))"

text \<open>
  Modelled from the spec: the decorator \<open>add_to\<close> of \<open>pyperch.utils.decorators\<close>, which
  is not among the sources.  Following section 4.2 (the override "must replace whatever
  default training-step behavior the host framework ships, globally" and "mutates global
  dispatch behavior of the host framework's base training class (process-wide)"),
  \<open>add_to(NeuralNet)\<close> applied to a function binds the class attribute of that function's
  name to it, whatever was bound before.
\<close>

definition add_to_NeuralNet ::
  "string \<Rightarrow> impl \<Rightarrow> ('x, 'l, 'd, 'w) process \<Rightarrow> ('x, 'l, 'd, 'w) process"
where
  "add_to_NeuralNet name f p = p\<lparr>NeuralNet_attrs := (NeuralNet_attrs p)(name \<mapsto> f)\<rparr>"

definition register_backprop_training_step :: "(unit, ('x, 'l, 'd, 'w) process) py" where
  "register_backprop_training_step p =
     (Inr (), add_to_NeuralNet ''train_step_single'' Backprop_recipe p)"

text \<open>
  Python's method call \<open>net.train_step_single(batch, **fit_params)\<close> on a skorch net: the
  function is looked up in the class at the time of the call.  \<open>host\<close> is the function
  skorch ships.
\<close>

definition call_train_step_single ::
  "('n, 'b, 'i, 't, 'p, 'c, 'f, 'w) skorch \<Rightarrow> ('n \<Rightarrow> 'b \<Rightarrow> 'f \<Rightarrow> (('c, 'p) step_result, 'w) py) \<Rightarrow>
   'n \<Rightarrow> 'b \<Rightarrow> 'f \<Rightarrow> (('c, 'p) step_result, ('x, 'l, 'd, 'w) process) py"
where
  "call_train_step_single S host net batch fit_params p =
     (case NeuralNet_attrs p ''train_step_single'' of
        None \<Rightarrow> py_raise AttributeError p
      | Some Host_default \<Rightarrow> in_world (host net batch fit_params) p
      | Some Backprop_recipe \<Rightarrow> in_world (train_step_single S net batch fit_params) p)"

section \<open>The network builder\<close>

text \<open>
  The loop of lines 61 and 62, over \<open>range(self.hidden_layers)\<close>: each round appends a new
  \<open>hidden_units \<times> hidden_units\<close> linear layer to \<open>self.layers\<close>.
\<close>

fun init_hidden_loop ::
  "('x, 'l, 'd, 'w) torch \<Rightarrow> int \<Rightarrow> string \<Rightarrow> int list \<Rightarrow> 'l list \<Rightarrow>
   ('l list, ('x, 'l, 'd, 'w) process) py"
where
  "init_hidden_loop T h_units dev [] ls = py_return ls"
| "init_hidden_loop T h_units dev (layer # rest) ls =
     py_bind (in_world (nn_Linear T h_units h_units dev)) (\<lambda>l.
     init_hidden_loop T h_units dev rest (ls @ [l]))"

text \<open>
  \<open>BackpropModule.__init__\<close>, lines 46 to 64.  \<open>super().__init__()\<close> sets up the empty
  \<open>nn.Module\<close> and has no counterpart here.  The statements run in the order of the
  source: the override is registered, then the dropout module is created, then the device is
  chosen, then the layers are created and appended one by one.  Storing the plain arguments
  on \<open>self\<close> cannot raise, so the record is built at the end.
\<close>

definition BackpropModule_init ::
  "('x, 'l, 'd, 'w) torch \<Rightarrow> int \<Rightarrow> int \<Rightarrow> int \<Rightarrow> int \<Rightarrow> rat \<Rightarrow>
   ('x \<Rightarrow> ('x, 'w) py) \<Rightarrow> ('x \<Rightarrow> ('x, 'w) py) \<Rightarrow>
   (('x, 'l, 'd, 'w) BackpropModule, ('x, 'l, 'd, 'w) process) py"
where
  "BackpropModule_init T i_dim o_dim h_units h_layers dropout_percent act out_act =
     py_bind register_backprop_training_step (\<lambda>_.
     py_bind (in_world (nn_Dropout T dropout_percent)) (\<lambda>dr.
     py_bind (in_world (cuda_is_available T)) (\<lambda>cuda.
     let dev = (if cuda then ''cuda'' else ''cpu'') in
     py_bind (in_world (nn_Linear T i_dim h_units dev)) (\<lambda>l_in.
     py_bind (init_hidden_loop T h_units dev [0..h_layers - 1] [l_in]) (\<lambda>ls.
     py_bind (in_world (nn_Linear T h_units o_dim dev)) (\<lambda>l_out.
     py_return
       \<lparr>input_dim = i_dim, output_dim = o_dim, hidden_units = h_units,
        hidden_layers = h_layers, dropout = dr, activation = act,
        output_activation = out_act, layers = ls @ [l_out], device = dev\<rparr>))))))"

text \<open>
  The constructor called with \<open>input_dim\<close> and \<open>output_dim\<close> only: the defaults of the
  signature at lines 16 and 17.
\<close>

definition BackpropModule_init_default ::
  "('x, 'l, 'd, 'w) torch \<Rightarrow> int \<Rightarrow> int \<Rightarrow>
   (('x, 'l, 'd, 'w) BackpropModule, ('x, 'l, 'd, 'w) process) py"
where
  "BackpropModule_init_default T i_dim o_dim =
     BackpropModule_init T i_dim o_dim 10 1 0 (nn_ReLU T) (nn_Softmax T (- 1))"

text \<open>The loop of lines 82 to 84, over \<open>range(1, self.hidden_layers + 1)\<close>.\<close>

fun forward_hidden_loop ::
  "('x, 'l, 'd, 'w) torch \<Rightarrow> ('x, 'l, 'd, 'w) BackpropModule \<Rightarrow> int list \<Rightarrow> 'x \<Rightarrow> ('x, 'w) py"
where
  "forward_hidden_loop T self [] X = py_return X"
| "forward_hidden_loop T self (i # rest) X =
     py_bind (getitem (layers self) i) (\<lambda>l.
     py_bind (call_Linear T l X) (\<lambda>X.
     py_bind (activation self X) (\<lambda>X.
     py_bind (call_Dropout T (dropout self) X) (\<lambda>X.
     forward_hidden_loop T self rest X))))"

text \<open>\<open>BackpropModule.forward\<close>, lines 80 to 86.\<close>

definition forward ::
  "('x, 'l, 'd, 'w) torch \<Rightarrow> ('x, 'l, 'd, 'w) BackpropModule \<Rightarrow> 'x \<Rightarrow> ('x, 'w) py"
where
  "forward T self X =
     py_bind (getitem (layers self) 0) (\<lambda>l.
     py_bind (call_Linear T l X) (\<lambda>X.
     py_bind (activation self X) (\<lambda>X.
     py_bind (call_Dropout T (dropout self) X) (\<lambda>X.
     py_bind (forward_hidden_loop T self [1..hidden_layers self] X) (\<lambda>X.
     py_bind (getitem (layers self) (hidden_layers self + 1)) (\<lambda>l.
     py_bind (call_Linear T l X) (\<lambda>X.
     output_activation self X)))))))"

section \<open>The operations of a process that uses the module\<close>

text \<open>
  A construction: the constructor runs, and if it returns, the new instance is kept.
  One step of a process: a \<open>BackpropModule\<close> is constructed, a forward pass runs on an
  instance, a skorch net runs a training step, or the libraries change their own state in
  any way (an optimizer update, a data loader, the random generator).
\<close>

inductive construction ::
  "('x, 'l, 'd, 'w) torch \<Rightarrow> ('x, 'l, 'd, 'w) process \<Rightarrow> ('x, 'l, 'd, 'w) process \<Rightarrow> bool"
  for T
where
  returned:
    "BackpropModule_init T i_dim o_dim h_units h_layers dropout_percent act out_act p = (Inr m, p')
     \<Longrightarrow> construction T p (p'\<lparr>instances := instances p' @ [m]\<rparr>)"
| raised:
    "BackpropModule_init T i_dim o_dim h_units h_layers dropout_percent act out_act p = (Inl e, p')
     \<Longrightarrow> construction T p p'"

inductive module_step ::
  "('x, 'l, 'd, 'w) torch \<Rightarrow> ('n, 'b, 'i, 't, 'p, 'c, 'f, 'w) skorch \<Rightarrow>
   ('n \<Rightarrow> 'b \<Rightarrow> 'f \<Rightarrow> (('c, 'p) step_result, 'w) py) \<Rightarrow>
   ('x, 'l, 'd, 'w) process \<Rightarrow> ('x, 'l, 'd, 'w) process \<Rightarrow> bool"
  for T S host
where
  constructs:
    "construction T p p' \<Longrightarrow> module_step T S host p p'"
| forwarded:
    "k < length (instances p) \<Longrightarrow> forward T (instances p ! k) X (world p) = (r, w')
     \<Longrightarrow> module_step T S host p (p\<lparr>world := w'\<rparr>)"
| trained:
    "call_train_step_single S host net batch fit_params p = (r, p')
     \<Longrightarrow> module_step T S host p p'"
| library:
    "module_step T S host p (p\<lparr>world := w'\<rparr>)"

section \<open>The forward pass as the specification words it\<close>

text \<open>
  Section 4.1 of the specification: "apply layer 0, then activation, then dropout; repeat
  activation+dropout after each of the hidden_layers intermediate layers; apply the final
  layer followed by the output activation".  A stage names one call; \<open>Layer i\<close> is the call
  of \<open>self.layers[i]\<close>.
\<close>

datatype stage = Layer int | Activation | Dropout | Output_activation

definition forward_stages :: "int \<Rightarrow> stage list" where
  "forward_stages h =
     [Layer 0, Activation, Dropout]
     @ concat (map (\<lambda>i. [Layer i, Activation, Dropout]) [1..h])
     @ [Layer (h + 1), Output_activation]"

fun run_stage ::
  "('x, 'l, 'd, 'w) torch \<Rightarrow> ('x, 'l, 'd, 'w) BackpropModule \<Rightarrow> stage \<Rightarrow> 'x \<Rightarrow> ('x, 'w) py"
where
  "run_stage T self (Layer i) X = py_bind (getitem (layers self) i) (\<lambda>l. call_Linear T l X)"
| "run_stage T self Activation X = activation self X"
| "run_stage T self Dropout X = call_Dropout T (dropout self) X"
| "run_stage T self Output_activation X = output_activation self X"

fun run_stages ::
  "('x, 'l, 'd, 'w) torch \<Rightarrow> ('x, 'l, 'd, 'w) BackpropModule \<Rightarrow> stage list \<Rightarrow> 'x \<Rightarrow> ('x, 'w) py"
where
  "run_stages T self [] X = py_return X"
| "run_stages T self (st # sts) X = py_bind (run_stage T self st X) (run_stages T self sts)"

text \<open>
  The arguments of the \<open>nn.Linear\<close> calls a network with \<open>h\<close> hidden layers is made of, in
  the order of section 3: input layer, hidden layers, output layer.
\<close>

definition layer_plan :: "int \<Rightarrow> int \<Rightarrow> int \<Rightarrow> nat \<Rightarrow> (int \<times> int) list" where
  "layer_plan i_dim o_dim h_units h =
     [(i_dim, h_units)] @ replicate h (h_units, h_units) @ [(h_units, o_dim)]"

text \<open>Creating the layers of a plan one after the other.\<close>

fun alloc_layers ::
  "('x, 'l, 'd, 'w) torch \<Rightarrow> string \<Rightarrow> (int \<times> int) list \<Rightarrow> ('l list, 'w) py"
where
  "alloc_layers T dev [] = py_return []"
| "alloc_layers T dev (ab # rest) =
     py_bind (nn_Linear T (fst ab) (snd ab) dev) (\<lambda>l.
     py_bind (alloc_layers T dev rest) (\<lambda>ls.
     py_return (l # ls)))"

section \<open>Frames and library contracts\<close>

text \<open>A computation preserves an observation \<open>f\<close> of the state, whether it returns or raises.\<close>

definition preserves :: "('s \<Rightarrow> 'v) \<Rightarrow> ('a, 's) py \<Rightarrow> bool" where
  "preserves f m \<longleftrightarrow> (\<forall>s. f (snd (m s)) = f s)"

text \<open>
  A callable keeps the shape \<open>s\<close>: given a tensor of that shape that the library accepts
  (\<open>ok\<close>: the right element type, on the right device), it returns an accepted tensor of
  the same shape.  \<open>shp\<close> reads the shape of a tensor.
\<close>

definition keeps_shape ::
  "('x \<Rightarrow> bool) \<Rightarrow> ('x \<Rightarrow> int list) \<Rightarrow> int list \<Rightarrow> ('x \<Rightarrow> ('x, 'w) py) \<Rightarrow> bool"
where
  "keeps_shape ok shp s f \<longleftrightarrow>
     (\<forall>X w. ok X \<and> shp X = s \<longrightarrow> (\<exists>Y w'. f X w = (Inr Y, w') \<and> ok Y \<and> shp Y = s))"



section \<open>A simulation of the libraries on tensor shapes\<close>

text \<open>
  To run the module on concrete inputs the library calls need values.  The simulation
  below keeps of a tensor its shape only and of a layer its two sizes, and logs every call.
  It follows the libraries' documented behaviour on a machine with room for 1073741824
  weights per layer: \<open>nn.Linear\<close> raises \<open>TypeError\<close> for a size outside the signed
  64-bit range, \<open>RuntimeError\<close> for any other negative size and for a layer that does not
  fit the memory, and returns a layer otherwise (a size of zero gives empty parameters);
  a layer maps a tensor whose last dimension is \<open>in_features\<close> to one whose last dimension
  is \<open>out_features\<close>;
  \<open>nn.Dropout(p)\<close> raises \<open>ValueError\<close> unless \<open>0 \<le> p \<le> 1\<close> and keeps the shape;
  \<open>nn.ReLU\<close> and \<open>nn.Softmax\<close> keep the shape (the softmax dimension must exist, where a
  tensor without dimensions counts as having one); \<open>nn.GLU\<close> halves the last dimension,
  which must be even.
  The skorch side is a net with one trainable weight and the squared error as loss.
\<close>

type_synonym shape = "int list"

record linear =
  in_features :: int
  out_features :: int

datatype event =
    New_Linear int int
  | New_Dropout rat
  | Linear_called linear
  | Dropout_called rat
  | ReLU_called
  | Softmax_called
  | GLU_called
  | Set_training bool
  | Data_unpacked
  | Inferred
  | Loss_computed
  | Backward_run
  | Optimizer_stepped
  | Grad_zeroed

record sim_world =
  events :: "event list"
  training :: bool
  weight :: int
  grad :: int

definition logged :: "event \<Rightarrow> sim_world \<Rightarrow> sim_world" where
  "logged ev w = w\<lparr>events := events w @ [ev]\<rparr>"

definition sim_Linear :: "int \<Rightarrow> int \<Rightarrow> string \<Rightarrow> (linear, sim_world) py" where
  "sim_Linear i out dev w =
     (if i < - 9223372036854775808 \<or> 9223372036854775808 \<le> i
         \<or> out < - 9223372036854775808 \<or> 9223372036854775808 \<le> out
      then (Inl TypeError, w)
      else if i < 0 \<or> out < 0 then (Inl RuntimeError, w)
      else if 1073741824 < i * out then (Inl RuntimeError, w)
      else (Inr \<lparr>in_features = i, out_features = out\<rparr>, logged (New_Linear i out) w))"

definition sim_Dropout :: "rat \<Rightarrow> (rat, sim_world) py" where
  "sim_Dropout q w =
     (if q < 0 \<or> 1 < q then (Inl ValueError, w) else (Inr q, logged (New_Dropout q) w))"

definition sim_call_Linear :: "linear \<Rightarrow> shape \<Rightarrow> (shape, sim_world) py" where
  "sim_call_Linear l X w =
     (if X \<noteq> [] \<and> last X = in_features l
      then (Inr (butlast X @ [out_features l]), logged (Linear_called l) w)
      else (Inl RuntimeError, w))"

definition sim_call_Dropout :: "rat \<Rightarrow> shape \<Rightarrow> (shape, sim_world) py" where
  "sim_call_Dropout q X w = (Inr X, logged (Dropout_called q) w)"

definition sim_ReLU :: "shape \<Rightarrow> (shape, sim_world) py" where
  "sim_ReLU X w = (Inr X, logged ReLU_called w)"

definition sim_Softmax :: "int \<Rightarrow> shape \<Rightarrow> (shape, sim_world) py" where
  "sim_Softmax d X w =
     (let n = max 1 (int (length X)) in
      if - n \<le> d \<and> d < n then (Inr X, logged Softmax_called w)
      else (Inl IndexError, w))"


definition torch_sim :: "(shape, linear, rat, sim_world) torch" where
  "torch_sim =
     \<lparr>nn_Linear = sim_Linear, nn_Dropout = sim_Dropout,
      cuda_is_available = py_return False,
      call_Linear = sim_call_Linear, call_Dropout = sim_call_Dropout,
      nn_ReLU = sim_ReLU, nn_Softmax = sim_Softmax\<rparr>"

definition skorch_sim :: "(unit, int \<times> int, int, int, int, int \<times> int, unit, sim_world) skorch" where
  "skorch_sim =
     \<lparr>set_training = (\<lambda>n b w. (Inr (), logged (Set_training b) (w\<lparr>training := b\<rparr>))),
      unpack_data = (\<lambda>b w. (Inr b, logged Data_unpacked w)),
      infer = (\<lambda>n x f w. (Inr (weight w * x), logged Inferred w)),
      get_loss = (\<lambda>n yp y x t w. (Inr ((yp - y) * (yp - y), 2 * (yp - y) * x), logged Loss_computed w)),
      backward = (\<lambda>c w. (Inr (), logged Backward_run (w\<lparr>grad := grad w + snd c\<rparr>))),
      optimizer_step = (\<lambda>n w. (Inr (), logged Optimizer_stepped (w\<lparr>weight := weight w - grad w\<rparr>))),
      zero_grad = (\<lambda>n w. (Inr (), logged Grad_zeroed (w\<lparr>grad := 0\<rparr>)))\<rparr>"

text \<open>The function skorch ships under the name \<open>train_step_single\<close>, in the simulation.\<close>

definition host_sim :: "unit \<Rightarrow> int \<times> int \<Rightarrow> unit \<Rightarrow> ((int \<times> int, int) step_result, sim_world) py" where
  "host_sim = train_step_single skorch_sim"

text \<open>A fresh process: skorch is imported, nothing is constructed, nothing has run.\<close>

definition fresh :: "(shape, linear, rat, sim_world) process" where
  "fresh =
     \<lparr>NeuralNet_attrs = [''train_step_single'' \<mapsto> Host_default], instances = [],
      world = \<lparr>events = [], training = False, weight = 3, grad = 0\<rparr>\<rparr>"

text \<open>
  The network \<open>BackpropModule(4, 3)\<close> of the simulation, and the process in which it has
  been constructed.
\<close>

definition net0 :: "(shape, linear, rat, sim_world) BackpropModule" where
  "net0 =
     \<lparr>input_dim = 4, output_dim = 3, hidden_units = 10, hidden_layers = 1, dropout = 0,
      activation = sim_ReLU, output_activation = sim_Softmax (- 1),
      layers = [\<lparr>in_features = 4, out_features = 10\<rparr>,
                \<lparr>in_features = 10, out_features = 10\<rparr>,
                \<lparr>in_features = 10, out_features = 3\<rparr>],
      device = ''cpu''\<rparr>"

definition built :: "(shape, linear, rat, sim_world) process" where
  "built =
     (case BackpropModule_init torch_sim 4 3 10 1 0 sim_ReLU (sim_Softmax (- 1)) fresh of
        (Inr m, p') \<Rightarrow> p'\<lparr>instances := instances p' @ [m]\<rparr>
      | (Inl e, p') \<Rightarrow> p')"

section \<open>Basic facts about computations\<close>

lemma py_bind_cases:
  assumes "py_bind m f s = (r, s2)"
  obtains (raised) e where "m s = (Inl e, s2)" "r = Inl e"
        | (returned) a s1 where "m s = (Inr a, s1)" "f a s1 = (r, s2)"
  using assms by (auto simp: py_bind_def split: prod.splits sum.splits)

lemma py_bind_return: "py_bind (py_return a) f = f a"
  by (rule ext) (simp add: py_bind_def py_return_def)

lemma py_bind_assoc: "py_bind (py_bind m f) g = py_bind m (\<lambda>a. py_bind (f a) g)"
  by (rule ext) (simp add: py_bind_def split: prod.splits sum.splits)

lemma preserves_return: "preserves f (py_return a)"
  by (simp add: preserves_def py_return_def)

lemma preserves_bind:
  assumes "preserves f m" and "\<And>a. preserves f (k a)"
  shows "preserves f (py_bind m k)"
proof -
  have "f (snd (py_bind m k s)) = f s" for s
  proof (cases "m s")
    case (Pair r s1)
    have s1: "f s1 = f s" using assms(1) Pair by (metis preserves_def snd_conv)
    show ?thesis
    proof (cases r)
      case (Inl e)
      then show ?thesis using Pair s1 by (simp add: py_bind_def)
    next
      case (Inr a)
      have "f (snd (k a s1)) = f s1" using assms(2) by (simp add: preserves_def)
      then show ?thesis using Pair Inr s1 by (simp add: py_bind_def)
    qed
  qed
  then show ?thesis by (simp add: preserves_def)
qed

lemma preserves_in_world_attrs: "preserves NeuralNet_attrs (in_world m)"
  by (simp add: preserves_def in_world_def split: prod.splits)

lemma preserves_in_world_instances: "preserves instances (in_world m)"
  by (simp add: preserves_def in_world_def split: prod.splits)

lemma preserves_init_hidden_loop_attrs:
  "preserves NeuralNet_attrs (init_hidden_loop T hu dev js ls)"
  by (induction js arbitrary: ls)
     (simp_all add: preserves_return preserves_bind preserves_in_world_attrs)

lemma preserves_init_hidden_loop_instances:
  "preserves instances (init_hidden_loop T hu dev js ls)"
  by (induction js arbitrary: ls)
     (simp_all add: preserves_return preserves_bind preserves_in_world_instances)

lemma preservesD: "preserves f m \<Longrightarrow> f (snd (m s)) = f s"
  by (simp add: preserves_def)

lemma bind_register:
  "py_bind register_backprop_training_step k p =
   k () (add_to_NeuralNet ''train_step_single'' Backprop_recipe p)"
  by (simp add: py_bind_def register_backprop_training_step_def)

lemma init_attrs:
  "NeuralNet_attrs (snd (BackpropModule_init T i o' hu h dp act oact p)) =
   (NeuralNet_attrs p)(''train_step_single'' \<mapsto> Backprop_recipe)"
  unfolding BackpropModule_init_def bind_register Let_def
  by (subst preservesD)
     (intro preserves_bind preserves_in_world_attrs preserves_init_hidden_loop_attrs preserves_return,
      simp add: add_to_NeuralNet_def)

lemma init_instances:
  "instances (snd (BackpropModule_init T i o' hu h dp act oact p)) = instances p"
  unfolding BackpropModule_init_def bind_register Let_def
  by (subst preservesD)
     (intro preserves_bind preserves_in_world_instances preserves_init_hidden_loop_instances preserves_return,
      simp add: add_to_NeuralNet_def)

lemma in_world_bind:
  "in_world (py_bind m f) = py_bind (in_world m) (\<lambda>a. in_world (f a))"
  by (rule ext) (simp add: in_world_def py_bind_def split: prod.splits sum.splits)

lemma in_world_return: "in_world (py_return a) = py_return a"
  by (rule ext) (simp add: in_world_def py_return_def)

lemma in_world_eq:
  "in_world m p = (r, p') \<longleftrightarrow> (\<exists>w'. m (world p) = (r, w') \<and> p' = p\<lparr>world := w'\<rparr>)"
  by (auto simp: in_world_def split: prod.splits)

lemma py_bind_return_right: "py_bind m py_return = m"
  by (rule ext) (simp add: py_bind_def py_return_def split: prod.splits sum.splits)

lemma alloc_layers_append:
  "alloc_layers T dev (xs @ ys) =
   py_bind (alloc_layers T dev xs) (\<lambda>l1.
   py_bind (alloc_layers T dev ys) (\<lambda>l2. py_return (l1 @ l2)))"
  by (induction xs) (simp_all add: py_bind_return py_bind_assoc py_bind_return_right)

lemma init_hidden_loop_plan:
  "init_hidden_loop T hu dev js ls =
   py_bind (in_world (alloc_layers T dev (replicate (length js) (hu, hu)))) (\<lambda>new.
   py_return (ls @ new))"
proof (induction js arbitrary: ls)
  case Nil
  show ?case by (simp add: in_world_return py_bind_return)
next
  case (Cons j js)
  show ?case
    by (simp add: Cons.IH in_world_bind in_world_return py_bind_assoc py_bind_return)
qed

lemma alloc_layers_length:
  "alloc_layers T dev plan w = (Inr ls, w') \<Longrightarrow> length ls = length plan"
proof (induction plan arbitrary: ls w w')
  case Nil
  then show ?case by (simp add: py_return_def)
next
  case (Cons ab plan)
  from Cons.prems obtain l w1 ls1 where
    rest: "alloc_layers T dev plan w1 = (Inr ls1, w')" and ls: "ls = l # ls1"
    by (auto simp: py_return_def elim!: py_bind_cases)
  from Cons.IH[OF rest] ls show ?case by simp
qed


text \<open>The constructor, with the layers created by \<open>alloc_layers\<close> from the plan.\<close>

lemma init_by_plan:
  "BackpropModule_init T i_dim o_dim h_units h_layers dropout_percent act out_act =
     py_bind register_backprop_training_step (\<lambda>_.
     py_bind (in_world (nn_Dropout T dropout_percent)) (\<lambda>dr.
     py_bind (in_world (cuda_is_available T)) (\<lambda>cuda.
     py_bind (in_world (alloc_layers T (if cuda then ''cuda'' else ''cpu'')
                (layer_plan i_dim o_dim h_units (nat h_layers)))) (\<lambda>ls.
     py_return
       \<lparr>input_dim = i_dim, output_dim = o_dim, hidden_units = h_units,
        hidden_layers = h_layers, dropout = dr, activation = act,
        output_activation = out_act, layers = ls, device = (if cuda then ''cuda'' else ''cpu'')\<rparr>))))"
  unfolding BackpropModule_init_def layer_plan_def Let_def
  by (simp add: init_hidden_loop_plan alloc_layers_append in_world_bind in_world_return
      py_bind_assoc py_bind_return)

lemma py_bind_in_world:
  "py_bind (in_world m) f p =
   (case m (world p) of (Inl e, w') \<Rightarrow> (Inl e, p\<lparr>world := w'\<rparr>)
                       | (Inr a, w') \<Rightarrow> f a (p\<lparr>world := w'\<rparr>))"
  by (simp add: py_bind_def in_world_def split: prod.splits sum.splits)

lemma init_run:
  "BackpropModule_init T i_dim o_dim h_units h_layers dropout_percent act out_act p =
   (let p0 = p\<lparr>NeuralNet_attrs := (NeuralNet_attrs p)(''train_step_single'' \<mapsto> Backprop_recipe)\<rparr> in
    case nn_Dropout T dropout_percent (world p) of
      (Inl e, w1) \<Rightarrow> (Inl e, p0\<lparr>world := w1\<rparr>)
    | (Inr dr, w1) \<Rightarrow>
       (case cuda_is_available T w1 of
          (Inl e, w2) \<Rightarrow> (Inl e, p0\<lparr>world := w2\<rparr>)
        | (Inr cuda, w2) \<Rightarrow>
           (case alloc_layers T (if cuda then ''cuda'' else ''cpu'')
                   (layer_plan i_dim o_dim h_units (nat h_layers)) w2 of
              (Inl e, w3) \<Rightarrow> (Inl e, p0\<lparr>world := w3\<rparr>)
            | (Inr ls, w3) \<Rightarrow>
               (Inr \<lparr>input_dim = i_dim, output_dim = o_dim, hidden_units = h_units,
                     hidden_layers = h_layers, dropout = dr, activation = act,
                     output_activation = out_act, layers = ls,
                     device = (if cuda then ''cuda'' else ''cpu'')\<rparr>,
                p0\<lparr>world := w3\<rparr>))))"
  unfolding init_by_plan bind_register py_bind_in_world
  by (simp add: add_to_NeuralNet_def py_return_def Let_def split: prod.splits sum.splits)


lemmas run_defs =
  BackpropModule_init_def BackpropModule_init_default_def register_backprop_training_step_def
  add_to_NeuralNet_def in_world_def py_bind_def py_raise_def getitem_def forward_def
  train_step_single_def call_train_step_single_def Let_def upto.simps

lemmas sim_defs =
  skorch_sim_def host_sim_def fresh_def torch_sim_def sim_Linear_def sim_Dropout_def
  sim_call_Linear_def sim_call_Dropout_def
  sim_ReLU_def sim_Softmax_def logged_def py_return_def

lemma py_bind_eq_Inr:
  "py_bind m f s = (Inr b, s2) \<longleftrightarrow> (\<exists>a s1. m s = (Inr a, s1) \<and> f a s1 = (Inr b, s2))"
  by (auto simp: py_bind_def split: prod.splits sum.splits)

lemma init_returns:
  assumes "BackpropModule_init T i_dim o_dim h_units h_layers dropout_percent act out_act p = (Inr m, p')"
  shows "\<exists>dr w1 cuda w2 ls w3.
    nn_Dropout T dropout_percent (world p) = (Inr dr, w1) \<and>
    cuda_is_available T w1 = (Inr cuda, w2) \<and>
    alloc_layers T (if cuda then ''cuda'' else ''cpu'')
       (layer_plan i_dim o_dim h_units (nat h_layers)) w2 = (Inr ls, w3) \<and>
    m = \<lparr>input_dim = i_dim, output_dim = o_dim, hidden_units = h_units,
          hidden_layers = h_layers, dropout = dr, activation = act,
          output_activation = out_act, layers = ls,
          device = (if cuda then ''cuda'' else ''cpu'')\<rparr> \<and>
    p' = p\<lparr>NeuralNet_attrs := (NeuralNet_attrs p)(''train_step_single'' \<mapsto> Backprop_recipe),
            world := w3\<rparr>"
  using assms by (auto simp: init_run Let_def split: prod.splits sum.splits)

lemma construction_attrs:
  "construction T p p' \<Longrightarrow>
   NeuralNet_attrs p' = (NeuralNet_attrs p)(''train_step_single'' \<mapsto> Backprop_recipe)"
proof (induction rule: construction.induct)
  case (returned i_dim o_dim h_units h_layers dropout_percent act out_act p m p')
  from init_attrs[of T i_dim o_dim h_units h_layers dropout_percent act out_act p] returned
  show ?case by simp
next
  case (raised i_dim o_dim h_units h_layers dropout_percent act out_act p e p')
  from init_attrs[of T i_dim o_dim h_units h_layers dropout_percent act out_act p] raised
  show ?case by simp
qed

lemma construction_instances:
  "construction T p p' \<Longrightarrow> \<exists>new. instances p' = instances p @ new"
proof (induction rule: construction.induct)
  case (returned i_dim o_dim h_units h_layers dropout_percent act out_act p m p')
  from init_instances[of T i_dim o_dim h_units h_layers dropout_percent act out_act p] returned
  show ?case by simp
next
  case (raised i_dim o_dim h_units h_layers dropout_percent act out_act p e p')
  from init_instances[of T i_dim o_dim h_units h_layers dropout_percent act out_act p] raised
  show ?case by simp
qed

lemma call_train_step_single_frame:
  "call_train_step_single S host net batch fit_params p = (r, p') \<Longrightarrow> \<exists>w'. p' = p\<lparr>world := w'\<rparr>"
  by (auto simp: call_train_step_single_def py_raise_def in_world_eq
           split: option.splits impl.splits intro: exI[of _ "world p"])

lemma module_step_frame:
  assumes "module_step T S host p p'"
  shows "(NeuralNet_attrs p ''train_step_single'' = Some Backprop_recipe \<longrightarrow>
          NeuralNet_attrs p' ''train_step_single'' = Some Backprop_recipe)
       \<and> (\<exists>new. instances p' = instances p @ new)"
  using assms
proof (cases rule: module_step.cases)
  case constructs
  then show ?thesis using construction_attrs[of T p p'] construction_instances[of T p p'] by simp
next
  case (forwarded k X r w')
  then show ?thesis by simp
next
  case (trained net batch fit_params r)
  from call_train_step_single_frame[OF trained] show ?thesis by auto
next
  case (library w')
  then show ?thesis by simp
qed

lemma module_steps_frame:
  assumes "rtranclp (module_step T S host) p p'"
  shows "(NeuralNet_attrs p ''train_step_single'' = Some Backprop_recipe \<longrightarrow>
          NeuralNet_attrs p' ''train_step_single'' = Some Backprop_recipe)
       \<and> (\<exists>new. instances p' = instances p @ new)"
  using assms
proof (induction rule: rtranclp_induct)
  case base
  show ?case by simp
next
  case (step y z)
  from module_step_frame[OF step.hyps(2)] step.IH show ?case by auto
qed

section \<open>Runs of the simulation\<close>

lemma init_sim_default:
  "BackpropModule_init torch_sim 4 3 10 1 0 sim_ReLU (sim_Softmax (- 1)) fresh =
     (Inr net0,
      \<lparr>NeuralNet_attrs = [''train_step_single'' \<mapsto> Backprop_recipe], instances = [],
       world = \<lparr>events = [New_Dropout 0, New_Linear 4 10, New_Linear 10 10, New_Linear 10 3],
                training = False, weight = 3, grad = 0\<rparr>\<rparr>)"
  by (simp add: run_defs sim_defs net0_def)

lemma built_eq:
  "built =
     \<lparr>NeuralNet_attrs = [''train_step_single'' \<mapsto> Backprop_recipe], instances = [net0],
      world = \<lparr>events = [New_Dropout 0, New_Linear 4 10, New_Linear 10 10, New_Linear 10 3],
               training = False, weight = 3, grad = 0\<rparr>\<rparr>"
  by (simp add: built_def init_sim_default)

lemma construction_built: "construction torch_sim fresh built"
  using construction.returned[OF init_sim_default] by (simp add: built_eq)

lemma steps_built:
  "rtranclp (module_step torch_sim skorch_sim host_sim) built
     (snd (call_train_step_single skorch_sim host_sim () (2, 5) () built))"
  by (rule r_into_rtranclp,
      rule module_step.trained[of _ _ "()" "(2, 5)" "()" _
             "fst (call_train_step_single skorch_sim host_sim () (2, 5) () built)"]) simp

section \<open>Construction and invalid dimensions\<close>








section \<open>The override is installed first and for the whole process\<close>

text \<open>
  Claim C9: the training-step override is installed before the constructor does anything
  that can fail.  Whatever the constructor's outcome (it returns or it raises), the class
  attribute \<open>train_step_single\<close> of \<open>NeuralNet\<close> is bound to the backprop recipe in the
  state it leaves; and if the dropout module rejects its probability, the constructor
  raises that error in a state that differs from the state before the call in exactly the
  installed override and whatever the rejected \<open>nn.Dropout\<close> call did itself: no layer
  has been created, and the override is not rolled back.
\<close>

theorem override_installed_before_anything_can_fail:
  "NeuralNet_attrs (snd (BackpropModule_init T i_dim o_dim h_units h_layers dropout_percent act out_act p))
     ''train_step_single'' = Some Backprop_recipe
   \<and> (\<forall>e w'. nn_Dropout T dropout_percent (world p) = (Inl e, w') \<longrightarrow>
        BackpropModule_init T i_dim o_dim h_units h_layers dropout_percent act out_act p =
          (Inl e, p\<lparr>NeuralNet_attrs := (NeuralNet_attrs p)(''train_step_single'' \<mapsto> Backprop_recipe),
                    world := w'\<rparr>))"
  by (simp add: init_attrs) (simp add: init_run)

theorem override_installed_before_anything_can_fail_witness:
  "nn_Dropout torch_sim 2 (world fresh) = (Inl ValueError, world fresh)
   \<and> BackpropModule_init torch_sim 4 3 10 1 2 sim_ReLU (sim_Softmax (- 1)) fresh =
       (Inl ValueError,
        fresh\<lparr>NeuralNet_attrs := (NeuralNet_attrs fresh)(''train_step_single'' \<mapsto> Backprop_recipe),
              world := world fresh\<rparr>)
   \<and> NeuralNet_attrs fresh ''train_step_single'' = Some Host_default
   \<and> NeuralNet_attrs
        (snd (BackpropModule_init torch_sim 4 3 10 1 2 sim_ReLU (sim_Softmax (- 1)) fresh))
        ''train_step_single'' = Some Backprop_recipe
   \<and> events (world (snd (BackpropModule_init torch_sim 4 3 10 1 2 sim_ReLU (sim_Softmax (- 1)) fresh))) = []"
proof -
  have d: "nn_Dropout torch_sim 2 (world fresh) = (Inl ValueError, world fresh)"
    by (simp add: sim_defs)
  from override_installed_before_anything_can_fail
         [of torch_sim 4 3 10 1 2 sim_ReLU "sim_Softmax (- 1)" fresh] d
  have run: "BackpropModule_init torch_sim 4 3 10 1 2 sim_ReLU (sim_Softmax (- 1)) fresh =
       (Inl ValueError,
        fresh\<lparr>NeuralNet_attrs := (NeuralNet_attrs fresh)(''train_step_single'' \<mapsto> Backprop_recipe),
              world := world fresh\<rparr>)"
    by blast
  show ?thesis using d run by (simp add: fresh_def)
qed

text \<open>
  Claim C2: after the construction of any \<open>BackpropModule\<close> (whether the constructor
  returned or raised), and after any further operations of the process, the class attribute
  \<open>train_step_single\<close> of \<open>NeuralNet\<close> is the backprop recipe, and a training step of any
  net, on any batch, runs that recipe: no operation restores the previous binding.
\<close>

theorem override_is_process_wide:
  assumes "construction T p0 p1" and "rtranclp (module_step T S host) p1 p2"
  shows "NeuralNet_attrs p2 ''train_step_single'' = Some Backprop_recipe
       \<and> call_train_step_single S host net batch fit_params p2 =
           in_world (train_step_single S net batch fit_params) p2"
proof -
  from construction_attrs[OF assms(1)]
  have "NeuralNet_attrs p1 ''train_step_single'' = Some Backprop_recipe" by simp
  with module_steps_frame[OF assms(2)]
  have a: "NeuralNet_attrs p2 ''train_step_single'' = Some Backprop_recipe" by simp
  then show ?thesis by (simp add: call_train_step_single_def)
qed

theorem override_is_process_wide_witness:
  "construction torch_sim fresh built
   \<and> NeuralNet_attrs fresh ''train_step_single'' = Some Host_default
   \<and> rtranclp (module_step torch_sim skorch_sim host_sim) built
        (snd (call_train_step_single skorch_sim host_sim () (2, 5) () built))
   \<and> NeuralNet_attrs (snd (call_train_step_single skorch_sim host_sim () (2, 5) () built))
        ''train_step_single'' = Some Backprop_recipe
   \<and> call_train_step_single skorch_sim host_sim () (1, 1) ()
        (snd (call_train_step_single skorch_sim host_sim () (2, 5) () built)) =
       in_world (train_step_single skorch_sim () (1, 1) ())
        (snd (call_train_step_single skorch_sim host_sim () (2, 5) () built))"
proof -
  let ?p2 = "snd (call_train_step_single skorch_sim host_sim () (2, 5) () built)"
  have "module_step torch_sim skorch_sim host_sim built ?p2"
    by (rule module_step.trained[of _ _ "()" "(2, 5)" "()" _ "fst (call_train_step_single skorch_sim host_sim () (2, 5) () built)"]) simp
  then have steps: "rtranclp (module_step torch_sim skorch_sim host_sim) built ?p2"
    by (rule r_into_rtranclp)
  from override_is_process_wide[OF construction_built steps, of "()" "(1, 1)" "()"]
  show ?thesis using construction_built steps by (simp add: fresh_def)
qed

section \<open>The layer stack\<close>

text \<open>
  Claim C6: after a construction with \<open>hidden_layers = h \<ge> 0\<close> the layer stack has exactly
  \<open>h + 2\<close> layers, created in order as one input layer (\<open>input_dim \<times> hidden_units\<close>),
  \<open>h\<close> hidden layers (\<open>hidden_units \<times> hidden_units\<close>) and one output layer
  (\<open>hidden_units \<times> output_dim\<close>); and whatever the process does afterwards (further
  constructions, forward passes, training steps, any change of the libraries' own state,
  which is where an optimizer updates parameter values), the instance and with it its layer
  stack is the one the constructor returned.
\<close>

theorem layer_stack_is_fixed_at_construction:
  assumes "0 \<le> h_layers"
    and "BackpropModule_init T i_dim o_dim h_units h_layers dropout_percent act out_act p = (Inr m, p')"
    and "rtranclp (module_step T S host) (p'\<lparr>instances := instances p' @ [m]\<rparr>) p2"
  shows "length (layers m) = nat h_layers + 2
       \<and> (\<exists>dev w w'. alloc_layers T dev
             ([(i_dim, h_units)] @ replicate (nat h_layers) (h_units, h_units) @ [(h_units, o_dim)]) w
             = (Inr (layers m), w'))
       \<and> length (instances p) < length (instances p2)
       \<and> instances p2 ! length (instances p) = m"
proof -
  from init_returns[OF assms(2)] obtain dr cuda w2 ls w3 where
    alloc: "alloc_layers T (if cuda then ''cuda'' else ''cpu'')
              (layer_plan i_dim o_dim h_units (nat h_layers)) w2 = (Inr ls, w3)"
    and m: "layers m = ls"
    and p': "instances p' = instances p"
    by auto
  from alloc_layers_length[OF alloc] m
  have len: "length (layers m) = nat h_layers + 2" by (simp add: layer_plan_def)
  from alloc m have made: "\<exists>dev w w'. alloc_layers T dev
             ([(i_dim, h_units)] @ replicate (nat h_layers) (h_units, h_units) @ [(h_units, o_dim)]) w
             = (Inr (layers m), w')"
    unfolding layer_plan_def by blast
  from module_steps_frame[OF assms(3)] p' obtain new where
    "instances p2 = (instances p @ [m]) @ new" by auto
  then have "length (instances p) < length (instances p2)"
    and "instances p2 ! length (instances p) = m"
    by (simp_all add: nth_append)
  with len made show ?thesis by blast
qed

theorem layer_stack_is_fixed_at_construction_witness:
  "BackpropModule_init torch_sim 4 3 10 1 0 sim_ReLU (sim_Softmax (- 1)) fresh
     = (Inr net0, built\<lparr>instances := []\<rparr>)
   \<and> length (layers net0) = nat 1 + 2
   \<and> (\<exists>dev w w'. alloc_layers torch_sim dev
         ([(4, 10)] @ replicate (nat 1) (10, 10) @ [(10, 3)]) w = (Inr (layers net0), w'))
   \<and> length (instances fresh) < length (instances (snd (call_train_step_single skorch_sim host_sim () (2, 5) () built)))
   \<and> instances (snd (call_train_step_single skorch_sim host_sim () (2, 5) () built))
        ! length (instances fresh) = net0"
proof -
  have init: "BackpropModule_init torch_sim 4 3 10 1 0 sim_ReLU (sim_Softmax (- 1)) fresh
     = (Inr net0, built\<lparr>instances := []\<rparr>)"
    by (simp add: init_sim_default built_eq)
  have start: "(built\<lparr>instances := []\<rparr>)\<lparr>instances := instances (built\<lparr>instances := []\<rparr>) @ [net0]\<rparr> = built"
    by (simp add: built_eq)
  have steps: "rtranclp (module_step torch_sim skorch_sim host_sim)
     ((built\<lparr>instances := []\<rparr>)\<lparr>instances := instances (built\<lparr>instances := []\<rparr>) @ [net0]\<rparr>)
     (snd (call_train_step_single skorch_sim host_sim () (2, 5) () built))"
    unfolding start by (rule steps_built)
  have h: "(0::int) \<le> 1" by simp
  from layer_stack_is_fixed_at_construction[OF h init steps] init
  show ?thesis by simp
qed

text \<open>
  Claim C7: for \<open>hidden_layers = 0\<close> the layer stack consists of the input layer
  (\<open>input_dim \<times> hidden_units\<close>) and the output layer (\<open>hidden_units \<times> output_dim\<close>), and
  a forward pass calls exactly these two linear layers: the input layer, the activation,
  dropout, the output layer, the output activation.
\<close>

theorem no_hidden_layers_runs_two_linear_layers:
  assumes "BackpropModule_init T i_dim o_dim h_units 0 dropout_percent act out_act p = (Inr m, p')"
  shows "\<exists>l_in l_out.
           layers m = [l_in, l_out]
         \<and> (\<exists>dev w0 w1 w2. nn_Linear T i_dim h_units dev w0 = (Inr l_in, w1)
                           \<and> nn_Linear T h_units o_dim dev w1 = (Inr l_out, w2))
         \<and> (\<forall>X. forward T m X =
               py_bind (call_Linear T l_in X) (\<lambda>X.
               py_bind (act X) (\<lambda>X.
               py_bind (call_Dropout T (dropout m) X) (\<lambda>X.
               py_bind (call_Linear T l_out X) out_act))))"
proof -
  from init_returns[OF assms] obtain dr cuda w2 ls w3 where
    alloc: "alloc_layers T (if cuda then ''cuda'' else ''cpu'')
              (layer_plan i_dim o_dim h_units (nat 0)) w2 = (Inr ls, w3)"
    and m: "m = \<lparr>input_dim = i_dim, output_dim = o_dim, hidden_units = h_units,
          hidden_layers = 0, dropout = dr, activation = act,
          output_activation = out_act, layers = ls,
          device = (if cuda then ''cuda'' else ''cpu'')\<rparr>"
    by blast
  let ?dev = "if cuda then ''cuda'' else ''cpu''"
  from alloc obtain l_in w1' l_out where
    a: "nn_Linear T i_dim h_units ?dev w2 = (Inr l_in, w1')"
    and b: "nn_Linear T h_units o_dim ?dev w1' = (Inr l_out, w3)"
    and ls: "ls = [l_in, l_out]"
    by (auto simp: layer_plan_def py_bind_eq_Inr py_return_def)
  have fw: "forward T m X =
               py_bind (call_Linear T l_in X) (\<lambda>X.
               py_bind (act X) (\<lambda>X.
               py_bind (call_Dropout T (dropout m) X) (\<lambda>X.
               py_bind (call_Linear T l_out X) out_act)))" for X
    by (simp add: forward_def m ls getitem_def py_bind_return)
  from a b ls m fw show ?thesis by auto
qed

theorem no_hidden_layers_runs_two_linear_layers_witness:
  "fst (BackpropModule_init torch_sim 4 3 10 0 0 sim_ReLU (sim_Softmax (- 1)) fresh) =
     Inr (net0\<lparr>hidden_layers := 0,
               layers := [\<lparr>in_features = 4, out_features = 10\<rparr>,
                          \<lparr>in_features = 10, out_features = 3\<rparr>]\<rparr>)
   \<and> (\<exists>l_in l_out.
         [\<lparr>in_features = 4, out_features = 10\<rparr>, \<lparr>in_features = 10, out_features = 3\<rparr>]
           = [l_in, l_out]
       \<and> (\<exists>dev w0 w1 w2. nn_Linear torch_sim 4 10 dev w0 = (Inr l_in, w1)
                         \<and> nn_Linear torch_sim 10 3 dev w1 = (Inr l_out, w2))
       \<and> (\<forall>X. forward torch_sim
                 (net0\<lparr>hidden_layers := 0,
                       layers := [\<lparr>in_features = 4, out_features = 10\<rparr>,
                                  \<lparr>in_features = 10, out_features = 3\<rparr>]\<rparr>) X =
               py_bind (call_Linear torch_sim l_in X) (\<lambda>X.
               py_bind (sim_ReLU X) (\<lambda>X.
               py_bind (call_Dropout torch_sim 0 X) (\<lambda>X.
               py_bind (call_Linear torch_sim l_out X) (sim_Softmax (- 1)))))))
   \<and> forward torch_sim
         (net0\<lparr>hidden_layers := 0,
               layers := [\<lparr>in_features = 4, out_features = 10\<rparr>,
                          \<lparr>in_features = 10, out_features = 3\<rparr>]\<rparr>) [5, 4]
         (world fresh) =
       (Inr [5, 3],
        (world fresh)\<lparr>events := [Linear_called \<lparr>in_features = 4, out_features = 10\<rparr>,
                                 ReLU_called, Dropout_called 0,
                                 Linear_called \<lparr>in_features = 10, out_features = 3\<rparr>,
                                 Softmax_called]\<rparr>)"
proof -
  let ?m = "net0\<lparr>hidden_layers := 0,
               layers := [\<lparr>in_features = 4, out_features = 10\<rparr>,
                          \<lparr>in_features = 10, out_features = 3\<rparr>]\<rparr>"
  have init: "BackpropModule_init torch_sim 4 3 10 0 0 sim_ReLU (sim_Softmax (- 1)) fresh =
     (Inr ?m,
      \<lparr>NeuralNet_attrs = [''train_step_single'' \<mapsto> Backprop_recipe], instances = [],
       world = \<lparr>events = [New_Dropout 0, New_Linear 4 10, New_Linear 10 3],
                training = False, weight = 3, grad = 0\<rparr>\<rparr>)"
    by (simp add: run_defs sim_defs net0_def)
  have run: "forward torch_sim ?m [5, 4] (world fresh) =
       (Inr [5, 3],
        (world fresh)\<lparr>events := [Linear_called \<lparr>in_features = 4, out_features = 10\<rparr>,
                                 ReLU_called, Dropout_called 0,
                                 Linear_called \<lparr>in_features = 10, out_features = 3\<rparr>,
                                 Softmax_called]\<rparr>)"
    by (simp add: run_defs sim_defs net0_def)
  from no_hidden_layers_runs_two_linear_layers[OF init] init run
  show ?thesis by (simp add: net0_def)
qed

text \<open>
  Claim C8: a network constructed from \<open>input_dim\<close> and \<open>output_dim\<close> alone has
  \<open>hidden_units = 10\<close>, \<open>hidden_layers = 1\<close>, the activation \<open>nn.ReLU()\<close>, the output
  activation \<open>nn.Softmax(dim=-1)\<close>, a dropout module created with probability 0, and
  exactly 3 linear layers.
\<close>

theorem default_configuration:
  assumes "BackpropModule_init_default T i_dim o_dim p = (Inr m, p')"
  shows "input_dim m = i_dim \<and> output_dim m = o_dim
       \<and> hidden_units m = 10 \<and> hidden_layers m = 1
       \<and> activation m = nn_ReLU T \<and> output_activation m = nn_Softmax T (- 1)
       \<and> (\<exists>w'. nn_Dropout T 0 (world p) = (Inr (dropout m), w'))
       \<and> length (layers m) = 3"
proof -
  from assms have init: "BackpropModule_init T i_dim o_dim 10 1 0 (nn_ReLU T) (nn_Softmax T (- 1)) p = (Inr m, p')"
    by (simp add: BackpropModule_init_default_def)
  from init_returns[OF init] obtain dr w1 cuda w2 ls w3 where
    d: "nn_Dropout T 0 (world p) = (Inr dr, w1)"
    and alloc: "alloc_layers T (if cuda then ''cuda'' else ''cpu'')
              (layer_plan i_dim o_dim 10 (nat 1)) w2 = (Inr ls, w3)"
    and m: "m = \<lparr>input_dim = i_dim, output_dim = o_dim, hidden_units = 10,
          hidden_layers = 1, dropout = dr, activation = nn_ReLU T,
          output_activation = nn_Softmax T (- 1), layers = ls,
          device = (if cuda then ''cuda'' else ''cpu'')\<rparr>"
    by blast
  from alloc_layers_length[OF alloc] have "length ls = 3" by (simp add: layer_plan_def)
  with d m show ?thesis by auto
qed

theorem default_configuration_witness:
  "BackpropModule_init_default torch_sim 4 3 fresh = (Inr net0, built\<lparr>instances := []\<rparr>)
   \<and> input_dim net0 = 4 \<and> output_dim net0 = 3
   \<and> hidden_units net0 = 10 \<and> hidden_layers net0 = 1
   \<and> activation net0 = nn_ReLU torch_sim \<and> output_activation net0 = nn_Softmax torch_sim (- 1)
   \<and> (\<exists>w'. nn_Dropout torch_sim 0 (world fresh) = (Inr (dropout net0), w'))
   \<and> dropout net0 = 0
   \<and> length (layers net0) = 3"
proof -
  have sel: "nn_ReLU torch_sim = sim_ReLU" "nn_Softmax torch_sim = sim_Softmax"
    by (simp_all add: torch_sim_def)
  have init: "BackpropModule_init_default torch_sim 4 3 fresh = (Inr net0, built\<lparr>instances := []\<rparr>)"
    by (simp add: BackpropModule_init_default_def sel init_sim_default built_eq)
  from default_configuration[OF init] init show ?thesis by (simp add: net0_def)
qed

section \<open>The training step\<close>

text \<open>
  Claim C3: on a batch, the overridden training step puts the net into training mode,
  unpacks the batch into inputs and targets, computes the prediction with \<open>infer\<close> on the
  inputs, computes the loss of that prediction against the targets of the batch, runs the
  backward pass on that loss, and returns the loss together with the prediction.
\<close>

theorem train_step_single_runs_the_backprop_recipe:
  assumes "set_training S net True w0 = (Inr (), w1)"
    and "unpack_data S batch w1 = (Inr (Xi, yi), w2)"
    and "infer S net Xi fit_params w2 = (Inr prediction, w3)"
    and "get_loss S net prediction yi Xi True w3 = (Inr l, w4)"
    and "backward S l w4 = (Inr (), w5)"
  shows "train_step_single S net batch fit_params w0 = (Inr \<lparr>loss = l, y_pred = prediction\<rparr>, w5)"
  using assms by (simp add: train_step_single_def py_bind_def py_return_def)

theorem train_step_single_runs_the_backprop_recipe_witness:
  "set_training skorch_sim () True (world built) =
     (Inr (), logged (Set_training True) ((world built)\<lparr>training := True\<rparr>))
   \<and> train_step_single skorch_sim () (2, 5) () (world built) =
     (Inr \<lparr>loss = (1, 4), y_pred = 6\<rparr>,
      \<lparr>events = [New_Dropout 0, New_Linear 4 10, New_Linear 10 10, New_Linear 10 3,
                 Set_training True, Data_unpacked, Inferred, Loss_computed, Backward_run],
       training = True, weight = 3, grad = 4\<rparr>)"
proof -
  let ?w1 = "logged (Set_training True) ((world built)\<lparr>training := True\<rparr>)"
  let ?w2 = "logged Data_unpacked ?w1"
  let ?w3 = "logged Inferred ?w2"
  let ?w4 = "logged Loss_computed ?w3"
  let ?w5 = "logged Backward_run (?w4\<lparr>grad := grad ?w4 + 4\<rparr>)"
  have a: "set_training skorch_sim () True (world built) = (Inr (), ?w1)"
    by (simp add: skorch_sim_def)
  have b: "unpack_data skorch_sim (2, 5) ?w1 = (Inr (2, 5), ?w2)"
    by (simp add: skorch_sim_def)
  have c: "infer skorch_sim () 2 () ?w2 = (Inr 6, ?w3)"
    by (simp add: skorch_sim_def logged_def built_eq)
  have d: "get_loss skorch_sim () 6 5 2 True ?w3 = (Inr (1, 4), ?w4)"
    by (simp add: skorch_sim_def)
  have e: "backward skorch_sim (1, 4) ?w4 = (Inr (), ?w5)"
    by (simp add: skorch_sim_def)
  from train_step_single_runs_the_backprop_recipe[OF a b c d e] a
  show ?thesis by (simp add: logged_def built_eq)
qed

text \<open>
  Claim C10: the training step itself never changes parameter values.  With \<open>params\<close> any
  observation of the libraries' state (the values of the weights and biases) that the five
  library calls of the recipe leave alone, as entering training mode, unpacking, inference,
  the loss and the backward pass do, the whole step leaves it alone, whether it returns or
  raises; and the step is the same computation whatever the optimizer's \<open>step\<close> and
  \<open>zero_grad\<close> are: it calls neither.
\<close>

theorem train_step_single_leaves_parameters_alone:
  assumes "preserves params (set_training S net True)"
    and "preserves params (unpack_data S batch)"
    and "\<And>Xi. preserves params (infer S net Xi fit_params)"
    and "\<And>prediction yi Xi. preserves params (get_loss S net prediction yi Xi True)"
    and "\<And>l. preserves params (backward S l)"
  shows "preserves params (train_step_single S net batch fit_params)
       \<and> train_step_single (S\<lparr>optimizer_step := any_step, zero_grad := any_zero\<rparr>) net batch fit_params
           = train_step_single S net batch fit_params"
proof
  show "preserves params (train_step_single S net batch fit_params)"
    unfolding train_step_single_def
    by (intro preserves_bind preserves_return assms) (simp add: split_def, intro preserves_bind preserves_return assms)
  show "train_step_single (S\<lparr>optimizer_step := any_step, zero_grad := any_zero\<rparr>) net batch fit_params
           = train_step_single S net batch fit_params"
    by (simp add: train_step_single_def)
qed

theorem train_step_single_leaves_parameters_alone_witness:
  "preserves weight (train_step_single skorch_sim () (2, 5) ())
   \<and> train_step_single (skorch_sim\<lparr>optimizer_step := (\<lambda>n. py_raise RuntimeError),
                                      zero_grad := (\<lambda>n. py_raise RuntimeError)\<rparr>) () (2, 5) ()
       = train_step_single skorch_sim () (2, 5) ()
   \<and> weight (world built) = 3 \<and> grad (world built) = 0
   \<and> weight (snd (train_step_single skorch_sim () (2, 5) () (world built))) = 3
   \<and> grad (snd (train_step_single skorch_sim () (2, 5) () (world built))) = 4
   \<and> weight (snd (optimizer_step skorch_sim ()
                      (snd (train_step_single skorch_sim () (2, 5) () (world built))))) = - 1"
proof -
  have a: "preserves weight (set_training skorch_sim () True)"
    by (simp add: preserves_def skorch_sim_def logged_def)
  have b: "preserves weight (unpack_data skorch_sim (2, 5))"
    by (simp add: preserves_def skorch_sim_def logged_def)
  have c: "preserves weight (infer skorch_sim () Xi ())" for Xi
    by (simp add: preserves_def skorch_sim_def logged_def)
  have d: "preserves weight (get_loss skorch_sim () prediction yi Xi True)" for prediction yi Xi
    by (simp add: preserves_def skorch_sim_def logged_def)
  have e: "preserves weight (backward skorch_sim l)" for l
    by (simp add: preserves_def skorch_sim_def logged_def)
  have run: "train_step_single skorch_sim () (2, 5) () (world built) =
     (Inr \<lparr>loss = (1, 4), y_pred = 6\<rparr>,
      \<lparr>events = [New_Dropout 0, New_Linear 4 10, New_Linear 10 10, New_Linear 10 3,
                 Set_training True, Data_unpacked, Inferred, Loss_computed, Backward_run],
       training = True, weight = 3, grad = 4\<rparr>)"
    by (simp add: built_eq run_defs sim_defs)
  from train_step_single_leaves_parameters_alone
         [of weight skorch_sim "()" "(2, 5)" "()", OF a b c d e]
  show ?thesis by (simp add: run) (simp add: built_eq skorch_sim_def logged_def)
qed

section \<open>The forward pass\<close>

lemma run_stages_Nil_fun: "run_stages T self [] = py_return"
  by (rule ext) simp

lemma run_stages_Cons_fun:
  "run_stages T self (st # sts) =
   (\<lambda>X. py_bind (run_stage T self st X) (run_stages T self sts))"
  by (rule ext) simp

lemma run_stages_append:
  "run_stages T self (xs @ ys) =
   (\<lambda>X. py_bind (run_stages T self xs X) (run_stages T self ys))"
proof (induction xs)
  case Nil
  show ?case by (rule ext) (simp add: py_bind_return)
next
  case (Cons st xs)
  show ?case by (rule ext) (simp add: Cons.IH py_bind_assoc)
qed

lemma forward_hidden_loop_stages:
  "forward_hidden_loop T self js =
   run_stages T self (concat (map (\<lambda>i. [Layer i, Activation, Dropout]) js))"
proof (induction js)
  case Nil
  show ?case by (rule ext) simp
next
  case (Cons j js)
  show ?case by (rule ext) (simp add: Cons.IH py_bind_assoc run_stages_Cons_fun)
qed

lemma forward_by_stages:
  "forward T self X = run_stages T self (forward_stages (hidden_layers self)) X"
  unfolding forward_def forward_stages_def
  by (simp add: run_stages_append forward_hidden_loop_stages py_bind_assoc py_bind_return_right
      run_stages_Cons_fun run_stages_Nil_fun)

lemma upto_from_0: "0 \<le> h \<Longrightarrow> [0..h] = 0 # [1..h]"
  by (simp add: upto_rec1)

text \<open>
  Claim C4: with \<open>hidden_layers = h \<ge> 0\<close> the forward pass is exactly the sequence of
  section 4.1, run stage by stage with an exception ending the pass: layer 0, activation,
  dropout; for each hidden layer \<open>1 \<dots> h\<close> the layer, activation, dropout; then layer
  \<open>h + 1\<close> and the output activation.  That sequence is \<open>h + 1\<close> blocks of (layer,
  activation, dropout) followed by the final layer and the output activation, so the output
  activation occurs exactly once, at the very end, directly after the final layer, which
  occurs nowhere else: no dropout follows the output layer.
\<close>

theorem forward_applies_the_stages_in_order:
  assumes "0 \<le> hidden_layers self"
  shows "forward T self X = run_stages T self (forward_stages (hidden_layers self)) X
       \<and> forward_stages (hidden_layers self) =
           concat (map (\<lambda>i. [Layer i, Activation, Dropout]) [0..hidden_layers self])
           @ [Layer (hidden_layers self + 1), Output_activation]
       \<and> Output_activation \<notin> set (concat (map (\<lambda>i. [Layer i, Activation, Dropout]) [0..hidden_layers self]))
       \<and> Layer (hidden_layers self + 1) \<notin> set (concat (map (\<lambda>i. [Layer i, Activation, Dropout]) [0..hidden_layers self]))"
proof (intro conjI)
  show "forward T self X = run_stages T self (forward_stages (hidden_layers self)) X"
    by (rule forward_by_stages)
  show "forward_stages (hidden_layers self) =
           concat (map (\<lambda>i. [Layer i, Activation, Dropout]) [0..hidden_layers self])
           @ [Layer (hidden_layers self + 1), Output_activation]"
    using assms by (simp add: forward_stages_def upto_from_0)
  show "Output_activation \<notin> set (concat (map (\<lambda>i. [Layer i, Activation, Dropout]) [0..hidden_layers self]))"
    by auto
  show "Layer (hidden_layers self + 1) \<notin> set (concat (map (\<lambda>i. [Layer i, Activation, Dropout]) [0..hidden_layers self]))"
    by auto
qed

theorem forward_applies_the_stages_in_order_witness:
  "0 \<le> hidden_layers net0
   \<and> forward_stages (hidden_layers net0) =
       [Layer 0, Activation, Dropout, Layer 1, Activation, Dropout, Layer 2, Output_activation]
   \<and> forward torch_sim net0 [5, 4] (world fresh) =
       run_stages torch_sim net0
         [Layer 0, Activation, Dropout, Layer 1, Activation, Dropout, Layer 2, Output_activation]
         [5, 4] (world fresh)
   \<and> forward torch_sim net0 [5, 4] (world fresh) =
       (Inr [5, 3],
        (world fresh)\<lparr>events := [Linear_called \<lparr>in_features = 4, out_features = 10\<rparr>,
                                 ReLU_called, Dropout_called 0,
                                 Linear_called \<lparr>in_features = 10, out_features = 10\<rparr>,
                                 ReLU_called, Dropout_called 0,
                                 Linear_called \<lparr>in_features = 10, out_features = 3\<rparr>,
                                 Softmax_called]\<rparr>)"
proof -
  have h: "0 \<le> hidden_layers net0" by (simp add: net0_def)
  have st: "forward_stages (hidden_layers net0) =
       [Layer 0, Activation, Dropout, Layer 1, Activation, Dropout, Layer 2, Output_activation]"
    by (simp add: forward_stages_def net0_def upto.simps)
  have run: "forward torch_sim net0 [5, 4] (world fresh) =
       (Inr [5, 3],
        (world fresh)\<lparr>events := [Linear_called \<lparr>in_features = 4, out_features = 10\<rparr>,
                                 ReLU_called, Dropout_called 0,
                                 Linear_called \<lparr>in_features = 10, out_features = 10\<rparr>,
                                 ReLU_called, Dropout_called 0,
                                 Linear_called \<lparr>in_features = 10, out_features = 3\<rparr>,
                                 Softmax_called]\<rparr>)"
    by (simp add: run_defs sim_defs net0_def)
  from forward_applies_the_stages_in_order[OF h, of torch_sim "[5, 4]"] st
  have "forward torch_sim net0 [5, 4] =
       run_stages torch_sim net0
         [Layer 0, Activation, Dropout, Layer 1, Activation, Dropout, Layer 2, Output_activation]
         [5, 4]"
    by simp
  with h st run show ?thesis by simp
qed

subsection \<open>Shapes\<close>













text \<open>A softmax over dimension 1 keeps the shape of every batch as well.\<close>

lemma sim_Softmax_1_keeps_shape: "keeps_shape (\<lambda>X. True) (\<lambda>X. X) [B, n] (sim_Softmax 1)"
  by (simp add: keeps_shape_def sim_Softmax_def Let_def)




end
